theory Spec2Isabelle
  imports Main
begin

section \<open>Values, errors and the upstream collaborator\<close>

text \<open>
  Secret values and request bodies are JavaScript values that came out of \<open>JSON.parse\<close>
  (or a raw string). Numbers are only compared for truthiness here, never computed with.
\<close>

datatype json =
    JNull
  | JBool bool
  | JNum int
  | JStr string
  | JArr "json list"
  | JObj "(string \<times> json) list"

text \<open>
  A thrown JavaScript error object, with the properties the source reads:
  \<open>error.name\<close> and \<open>error.message\<close> in the catch block of \<open>getSecret\<close>,
  \<open>err.statusCode\<close>, \<open>err.status\<close>, \<open>err.message\<close> and \<open>err.stack\<close> in \<open>errorHandler\<close>.
  A property that is \<open>undefined\<close> is \<open>None\<close>.
\<close>

record js_error =
  err_name :: string
  err_message :: string
  err_statusCode :: "int option"
  err_status :: "int option"
  err_stack :: string

text \<open>\<open>new Error(msg)\<close>: the name is \<open>Error\<close>, no status code is set.\<close>

definition new_Error :: "string \<Rightarrow> js_error" where
  "new_Error msg =
     \<lparr>err_name = ''Error'', err_message = msg, err_statusCode = None,
      err_status = None, err_stack = ''Error: '' @ msg\<rparr>"

text \<open>
  The response of \<open>GetSecretValueCommand\<close>, as the client imported at line 1
  (\<open>@aws-sdk/client-secrets-manager\<close>) hands it over: \<open>SecretString\<close> is a string and
  \<open>SecretBinary\<close> is a \<open>Uint8Array\<close>, the bytes of the payload; a property that is absent
  is \<open>undefined\<close>, here \<open>None\<close>.
\<close>

type_synonym Uint8Array = "nat list"

record response =
  SecretString :: "string option"
  SecretBinary :: "Uint8Array option"

text \<open>
  What one call of \<open>getSecret\<close> reads from outside the module: the library functions
  \<open>JSON.parse\<close> (\<open>None\<close> when it throws) and
  \<open>Buffer.from(_, 'base64').toString('utf-8')\<close> (the text made of a binary payload), the
  outcome of \<open>client.send\<close> for a secret id (\<open>Inl\<close> the rejection), and the two readings of \<open>Date.now()\<close>: the one of the
  freshness test and the one taken when the cache entry is written, after the await.
\<close>

record env =
  JSON_parse :: "string \<Rightarrow> json option"
  Buffer_toString :: "Uint8Array \<Rightarrow> string"
  client_send :: "string \<Rightarrow> js_error + response"
  now_check :: int
  now_store :: int

section \<open>The cache\<close>

record cache_entry =
  secret :: json
  timestamp :: int

type_synonym cache = "string \<rightharpoonup> cache_entry"

text \<open>
  The module state: the \<open>secretCache\<close> map, and the log of the secret ids for which
  \<open>client.send\<close> was invoked (the upstream calls).
\<close>

record state =
  secretCache :: cache
  sent :: "string list"

definition CACHE_TTL :: int where
  "CACHE_TTL = 5 * 60 * 1000"

section \<open>getSecret\<close>

text \<open>
  JavaScript truthiness of an optional string property: \<open>undefined\<close> and the empty string
  are falsy. The result is the string when it is truthy. An object is always truthy, so
  for \<open>SecretBinary\<close> the test \<open>if (response.SecretBinary)\<close> fails only when the property
  is \<open>undefined\<close>: an empty \<open>Uint8Array\<close> passes it.
\<close>

definition truthy_string :: "string option \<Rightarrow> string option" where
  "truthy_string p = (case p of None \<Rightarrow> None | Some s \<Rightarrow> if s = [] then None else Some s)"

text \<open>Lines 29 to 34: the value served from the cache, if any.\<close>

definition cached_value :: "env \<Rightarrow> string \<Rightarrow> bool \<Rightarrow> cache \<Rightarrow> json option" where
  "cached_value e secretName useCache c =
     (if useCache then
        (case c secretName of
           None \<Rightarrow> None
         | Some cached \<Rightarrow>
             if now_check e - timestamp cached < CACHE_TTL then Some (secret cached) else None)
      else None)"

text \<open>\<open>try { v = JSON.parse(s) } catch (e) { v = s }\<close>\<close>

definition parse_or_raw :: "env \<Rightarrow> string \<Rightarrow> json" where
  "parse_or_raw e s = (case JSON_parse e s of Some v \<Rightarrow> v | None \<Rightarrow> JStr s)"

text \<open>Lines 44 to 63: the decoding of a response; \<open>Inl\<close> is the error thrown at line 62.\<close>

definition decode :: "env \<Rightarrow> response \<Rightarrow> js_error + json" where
  "decode e r =
     (case truthy_string (SecretString r) of
        Some s \<Rightarrow> Inr (parse_or_raw e s)
      | None \<Rightarrow>
          (case SecretBinary r of
             Some b \<Rightarrow> Inr (parse_or_raw e (Buffer_toString e b))
           | None \<Rightarrow> Inl (new_Error ''Secret value is empty'')))"

definition quoted :: "string \<Rightarrow> string" where
  "quoted s = [CHR 0x27] @ s @ [CHR 0x27]"

text \<open>Lines 72 to 82: the catch block, which throws a new error for every error caught.\<close>

definition rethrow :: "string \<Rightarrow> js_error \<Rightarrow> js_error" where
  "rethrow secretName error =
     (if err_name error = ''ResourceNotFoundException'' then
        new_Error (''Secret '' @ quoted secretName @ '' not found'')
      else if err_name error = ''AccessDeniedException'' then
        new_Error (''Access denied to secret '' @ quoted secretName
                   @ ''. Check IAM role permissions.'')
      else if err_name error = ''DecryptionFailureException'' then
        new_Error (''Failed to decrypt secret '' @ quoted secretName)
      else
        new_Error (''Failed to retrieve secret '' @ quoted secretName @ '': ''
                   @ err_message error))"

text \<open>
  Lines 36 to 82, from the moment \<open>client.send\<close> settles: the try block with the cache
  write, and the catch block around all of it.
\<close>

definition settle_send :: "env \<Rightarrow> string \<Rightarrow> cache \<Rightarrow> (js_error + json) \<times> cache" where
  "settle_send e secretName c =
     (case (case client_send e secretName of
              Inl error \<Rightarrow> Inl error
            | Inr r \<Rightarrow> decode e r) of
        Inr secretValue \<Rightarrow>
          (Inr secretValue,
           c(secretName \<mapsto> \<lparr>secret = secretValue, timestamp = now_store e\<rparr>))
      | Inl error \<Rightarrow> (Inl (rethrow secretName error), c))"

definition getSecret :: "env \<Rightarrow> string \<Rightarrow> bool \<Rightarrow> state \<Rightarrow> (js_error + json) \<times> state" where
  "getSecret e secretName useCache st =
     (case cached_value e secretName useCache (secretCache st) of
        Some v \<Rightarrow> (Inr v, st)
      | None \<Rightarrow>
          (case settle_send e secretName (secretCache st) of
             (res, c') \<Rightarrow> (res, \<lparr>secretCache = c', sent = sent st @ [secretName]\<rparr>)))"

section \<open>clearCache and clearSecretCache\<close>

definition clearCache :: "state \<Rightarrow> state" where
  "clearCache st = st\<lparr>secretCache := Map.empty\<rparr>"

definition clearSecretCache :: "string \<Rightarrow> state \<Rightarrow> state" where
  "clearSecretCache secretName st = st\<lparr>secretCache := (secretCache st)(secretName := None)\<rparr>"

section \<open>getMultipleSecrets\<close>

text \<open>
  \<open>results\<close> and \<open>errors\<close> are object literals used as dictionaries. Such an object is
  modelled by the list of its own enumerable properties, which is what \<open>Object.keys\<close> and
  \<open>res.json\<close> read (the enumeration order is not modelled). The assignment
  \<open>obj[key] = v\<close> creates or overwrites an own property, except for the key
  \<open>__proto__\<close>: that one is inherited from \<open>Object.prototype\<close> as an accessor, whose setter
  changes the prototype or does nothing, and creates no own property.
\<close>

type_synonym 'a js_object = "(string \<times> 'a) list"

fun assign :: "string \<Rightarrow> 'a \<Rightarrow> 'a js_object \<Rightarrow> 'a js_object" where
  "assign key v [] = [(key, v)]"
| "assign key v (p # ps) = (if fst p = key then (key, v) # ps else p # assign key v ps)"

definition js_set :: "'a js_object \<Rightarrow> string \<Rightarrow> 'a \<Rightarrow> 'a js_object" where
  "js_set obj key v = (if key = ''__proto__'' then obj else assign key v obj)"

definition Object_keys :: "'a js_object \<Rightarrow> string list" where
  "Object_keys obj = map fst obj"

record batch_result =
  secrets :: "json js_object"
  errors :: "string js_object option"

text \<open>
  The promises of \<open>secretNames.map(async ...)\<close>. The callback runs for every name in turn up
  to its first await, so every freshness test reads the cache as it was at the call, and
  \<open>client.send\<close> is invoked for every name that is not served from it. The promises then
  settle in an order the code does not choose: \<open>order\<close> lists the positions of
  \<open>secretNames\<close> in the order in which their callbacks resume, every position being in it
  since \<open>Promise.all\<close> waits for every promise. \<open>w i\<close> is what the call for position
  \<open>i\<close> reads from outside.
\<close>

record batch =
  b_cache :: cache
  results :: "json js_object"
  errs :: "string js_object"

definition resume :: "(nat \<Rightarrow> env) \<Rightarrow> string list \<Rightarrow> bool \<Rightarrow> cache \<Rightarrow> nat \<Rightarrow> batch \<Rightarrow> batch" where
  "resume w secretNames useCache c0 i b =
     (let secretName = secretNames ! i in
      case cached_value (w i) secretName useCache c0 of
        Some v \<Rightarrow> b\<lparr>results := js_set (results b) secretName v\<rparr>
      | None \<Rightarrow>
          (case settle_send (w i) secretName (b_cache b) of
             (Inr v, c') \<Rightarrow> b\<lparr>b_cache := c', results := js_set (results b) secretName v\<rparr>
           | (Inl error, c') \<Rightarrow>
               b\<lparr>b_cache := c', errs := js_set (errs b) secretName (err_message error)\<rparr>))"

definition started :: "(nat \<Rightarrow> env) \<Rightarrow> string list \<Rightarrow> bool \<Rightarrow> cache \<Rightarrow> string list" where
  "started w secretNames useCache c0 =
     map (\<lambda>i. secretNames ! i)
       (filter (\<lambda>i. cached_value (w i) (secretNames ! i) useCache c0 = None)
          [0..<length secretNames])"

definition getMultipleSecrets ::
  "(nat \<Rightarrow> env) \<Rightarrow> nat list \<Rightarrow> string list \<Rightarrow> bool \<Rightarrow> state \<Rightarrow> batch_result \<times> state" where
  "getMultipleSecrets w order secretNames useCache st =
     (let b = fold (resume w secretNames useCache (secretCache st)) order
                \<lparr>b_cache = secretCache st, results = [], errs = []\<rparr>
      in (\<lparr>secrets = results b,
           errors = (if length (Object_keys (errs b)) > 0 then Some (errs b) else None)\<rparr>,
          \<lparr>secretCache = b_cache b,
           sent = sent st @ started w secretNames useCache (secretCache st)\<rparr>))"

text \<open>
  What the call of \<open>getSecret\<close> for position \<open>i\<close> settles with: the cached value when the
  call was served from the cache, and else the result of the upstream call, which does not
  depend on what the cache holds when the call resumes.
\<close>

definition outcome ::
  "(nat \<Rightarrow> env) \<Rightarrow> string list \<Rightarrow> bool \<Rightarrow> cache \<Rightarrow> nat \<Rightarrow> js_error + json" where
  "outcome w secretNames useCache c0 i =
     (case cached_value (w i) (secretNames ! i) useCache c0 of
        Some v \<Rightarrow> Inr v
      | None \<Rightarrow> fst (settle_send (w i) (secretNames ! i) c0))"

section \<open>The HTTP boundary\<close>

record http_response =
  status :: int
  body :: json

text \<open>A route handler either sends a response or passes an error to \<open>next\<close>.\<close>

datatype handled = Sent http_response | Next js_error

text \<open>The calls a route makes into the adapter, in order.\<close>

datatype adapter_call =
    Call_getSecret string bool
  | Call_getMultipleSecrets "json list" json

text \<open>JavaScript truthiness of a JSON value.\<close>

fun truthy :: "json \<Rightarrow> bool" where
  "truthy JNull = False"
| "truthy (JBool b) = b"
| "truthy (JNum n) = (n \<noteq> 0)"
| "truthy (JStr s) = (s \<noteq> [])"
| "truthy (JArr xs) = True"
| "truthy (JObj fs) = True"

text \<open>\<open>a || b\<close> on optional numbers: \<open>undefined\<close> and \<open>0\<close> are falsy.\<close>

definition truthy_number :: "int option \<Rightarrow> int option" where
  "truthy_number p = (case p of None \<Rightarrow> None | Some n \<Rightarrow> if n = 0 then None else Some n)"

text \<open>
  \<open>errorHandler\<close>; \<open>NODE_ENV\<close> is \<open>process.env.NODE_ENV\<close>. \<open>res.status(statusCode).json\<close>
  sends the response only for a status code from 100 to 999: for any other code it throws
  a \<open>RangeError\<close>, the handler sends nothing (\<open>None\<close>) and the response is left to the
  framework.
\<close>

definition errorHandler :: "string option \<Rightarrow> js_error \<Rightarrow> http_response option" where
  "errorHandler NODE_ENV err =
     (let statusCode =
            (case truthy_number (err_statusCode err) of
               Some c \<Rightarrow> c
             | None \<Rightarrow> (case truthy_number (err_status err) of Some c \<Rightarrow> c | None \<Rightarrow> 500));
          message = (if err_message err \<noteq> [] then err_message err else ''Internal Server Error'')
      in if 100 \<le> statusCode \<and> statusCode \<le> 999 then
           Some \<lparr>status = statusCode,
                 body = JObj [(''error'',
                          JObj ([(''message'', JStr message), (''statusCode'', JNum statusCode)]
                                @ (if NODE_ENV = Some ''development''
                                   then [(''stack'', JStr (err_stack err))] else [])))]\<rparr>
         else None)"

text \<open>
  A value of \<open>req.query\<close>: a string, or an array or an object when the query string repeats
  or nests the parameter.
\<close>

datatype query = QString string | QArray "query list" | QObject "(string \<times> query) list"

text \<open>
  \<open>router.get('/:name')\<close>. \<open>decodeURIComponent\<close> is the library function, \<open>None\<close> when it
  throws \<open>URIError\<close>; \<open>query_useCache\<close> is \<open>req.query.useCache\<close>, \<open>None\<close> when absent.
\<close>

definition URIError :: js_error where
  "URIError = (new_Error ''URI malformed'')\<lparr>err_name := ''URIError''\<rparr>"

definition get_secret_route ::
  "(string \<Rightarrow> string option) \<Rightarrow> env \<Rightarrow> string \<Rightarrow> query option \<Rightarrow> state
     \<Rightarrow> handled \<times> adapter_call list \<times> state" where
  "get_secret_route decodeURIComponent e params_name query_useCache st =
     (case decodeURIComponent params_name of
        None \<Rightarrow> (Next URIError, [], st)
      | Some secretName \<Rightarrow>
          (let useCache = (query_useCache \<noteq> Some (QString ''false'')) in
           case getSecret e secretName useCache st of
             (Inr v, st') \<Rightarrow>
               (Sent \<lparr>status = 200, body = JObj [(''name'', JStr secretName), (''value'', v)]\<rparr>,
                [Call_getSecret secretName useCache], st')
           | (Inl error, st') \<Rightarrow> (Next error, [Call_getSecret secretName useCache], st')))"

text \<open>
  \<open>app.js\<close> mounts the router and registers \<open>errorHandler\<close> last, so an error passed to
  \<open>next\<close> is answered by it.
\<close>

definition answer :: "string option \<Rightarrow> handled \<Rightarrow> http_response option" where
  "answer NODE_ENV h = (case h of Sent r \<Rightarrow> Some r | Next err \<Rightarrow> errorHandler NODE_ENV err)"

definition GET_secrets_name ::
  "string option \<Rightarrow> (string \<Rightarrow> string option) \<Rightarrow> env \<Rightarrow> string \<Rightarrow> query option \<Rightarrow> state
     \<Rightarrow> http_response option" where
  "GET_secrets_name NODE_ENV decodeURIComponent e params_name query_useCache st =
     answer NODE_ENV (fst (get_secret_route decodeURIComponent e params_name query_useCache st))"

text \<open>
  \<open>router.post('/batch')\<close>. \<open>req.body\<close> is the parsed JSON object, a map from property
  names to values, or \<open>None\<close> when the body parser left it \<open>undefined\<close>: destructuring
  it then throws a \<open>TypeError\<close> inside the try block. The elements of \<open>names\<close> are not
  checked to be strings and \<open>useCache\<close> is passed on as it came, so the function imported
  as \<open>getMultipleSecrets\<close> is a parameter here, taking both as JSON values.
\<close>

definition destructure_TypeError :: js_error where
  "destructure_TypeError =
     (new_Error (''Cannot destructure property '' @ quoted ''names'' @ '' of ''
                 @ quoted ''req.body'' @ '' as it is undefined.''))\<lparr>err_name := ''TypeError''\<rparr>"

definition bad_request :: http_response where
  "bad_request =
     \<lparr>status = 400,
      body = JObj [(''error'',
               JObj [(''message'',
                      JStr (''Request body must include a '' @ [CHR 0x22] @ ''names'' @ [CHR 0x22]
                            @ '' array with at least one secret name'')),
                     (''statusCode'', JNum 400)])]\<rparr>"

fun isArray :: "json \<Rightarrow> bool" where
  "isArray (JArr xs) = True"
| "isArray _ = False"

fun elements :: "json \<Rightarrow> json list" where
  "elements (JArr xs) = xs"
| "elements _ = []"

definition post_batch_route ::
  "(json list \<Rightarrow> json \<Rightarrow> 's \<Rightarrow> json \<times> 's) \<Rightarrow> (string \<rightharpoonup> json) option \<Rightarrow> 's
     \<Rightarrow> handled \<times> adapter_call list \<times> 's" where
  "post_batch_route adapter req_body st =
     (case req_body of
        None \<Rightarrow> (Next destructure_TypeError, [], st)
      | Some props \<Rightarrow>
          (let names = props ''names'';
               useCache = (case props ''useCache'' of None \<Rightarrow> JBool True | Some u \<Rightarrow> u)
           in case names of
                None \<Rightarrow> (Sent bad_request, [], st)
              | Some ns \<Rightarrow>
                  if \<not> truthy ns \<or> \<not> isArray ns \<or> length (elements ns) = 0
                  then (Sent bad_request, [], st)
                  else (case adapter (elements ns) useCache st of
                          (result, st') \<Rightarrow>
                            (Sent \<lparr>status = 200, body = result\<rparr>,
                             [Call_getMultipleSecrets (elements ns) useCache], st'))))"


section \<open>The error kinds of the specification\<close>

text \<open>
  The specification names four kinds of failure of a fetch and the upstream identifier each
  comes from. \<open>upstream_kind\<close> is that table; \<open>message_kind\<close> is how a caller tells the
  kinds apart, from the only thing the adapter's error carries, its message.
\<close>

datatype kind = NotFound | AccessDenied | DecryptionFailure | OtherFailure

definition upstream_kind :: "string \<Rightarrow> kind" where
  "upstream_kind name =
     (if name = ''ResourceNotFoundException'' then NotFound
      else if name = ''AccessDeniedException'' then AccessDenied
      else if name = ''DecryptionFailureException'' then DecryptionFailure
      else OtherFailure)"

fun starts_with :: "string \<Rightarrow> string \<Rightarrow> bool" where
  "starts_with [] s = True"
| "starts_with (p # ps) [] = False"
| "starts_with (p # ps) (c # cs) = (p = c \<and> starts_with ps cs)"

definition message_kind :: "string \<Rightarrow> kind" where
  "message_kind msg =
     (if starts_with ''Secret '' msg then NotFound
      else if starts_with ''Access denied to secret '' msg then AccessDenied
      else if starts_with ''Failed to decrypt secret '' msg then DecryptionFailure
      else OtherFailure)"

section \<open>Concrete scenarios\<close>

text \<open>
  A small upstream store and library, for evaluating the definitions: \<open>A\<close> holds the JSON
  text \<open>{}\<close>, \<open>text\<close> holds text that is not JSON, \<open>bin\<close> holds the bytes of \<open>hi\<close>,
  \<open>hollow\<close> holds a binary payload of no bytes,
  \<open>blank\<close> answers with an empty string, \<open>nothing\<close> with no payload at all, and every
  other secret id does not exist.
\<close>

definition demo_parse :: "string \<Rightarrow> json option" where
  "demo_parse s =
     (if s = ''{}'' then Some (JObj []) else if s = ''42'' then Some (JNum 42) else None)"

definition demo_toString :: "Uint8Array \<Rightarrow> string" where
  "demo_toString b = (if b = [123, 125] then ''{}'' else if b = [104, 105] then ''hi'' else [])"

definition not_found :: js_error where
  "not_found =
     \<lparr>err_name = ''ResourceNotFoundException'',
      err_message = ''Secrets Manager can't find the specified secret.'',
      err_statusCode = None, err_status = None, err_stack = []\<rparr>"

definition demo_upstream :: "string \<Rightarrow> js_error + response" where
  "demo_upstream secretId =
     (if secretId = ''A'' then Inr \<lparr>SecretString = Some ''{}'', SecretBinary = None\<rparr>
      else if secretId = ''text'' then Inr \<lparr>SecretString = Some ''hello'', SecretBinary = None\<rparr>
      else if secretId = ''bin'' then Inr \<lparr>SecretString = None, SecretBinary = Some [104, 105]\<rparr>
      else if secretId = ''hollow'' then Inr \<lparr>SecretString = None, SecretBinary = Some []\<rparr>
      else if secretId = ''blank'' then Inr \<lparr>SecretString = Some [], SecretBinary = None\<rparr>
      else if secretId = ''nothing'' then Inr \<lparr>SecretString = None, SecretBinary = None\<rparr>
      else Inl not_found)"

definition demo_env :: "int \<Rightarrow> int \<Rightarrow> env" where
  "demo_env t_check t_store =
     \<lparr>JSON_parse = demo_parse, Buffer_toString = demo_toString, client_send = demo_upstream,
      now_check = t_check, now_store = t_store\<rparr>"

definition empty_state :: state where
  "empty_state = \<lparr>secretCache = Map.empty, sent = []\<rparr>"

text \<open>A cache holding \<open>X\<close> and \<open>A\<close>, both written at time 0.\<close>

definition old_state :: state where
  "old_state =
     \<lparr>secretCache = [''X'' \<mapsto> \<lparr>secret = JStr ''old'', timestamp = 0\<rparr>,
                     ''A'' \<mapsto> \<lparr>secret = JStr ''old'', timestamp = 0\<rparr>],
      sent = []\<rparr>"


text \<open>Every call of a batch reads the same store, at the same times.\<close>

definition demo_world :: "nat \<Rightarrow> env" where
  "demo_world i = demo_env 1000 1005"

lemmas demo_defs =
  demo_parse_def demo_toString_def not_found_def demo_upstream_def demo_env_def
  empty_state_def old_state_def demo_world_def

section \<open>Properties of getSecret\<close>

lemma settle_send_failure_cache:
  "settle_send e secretName c = (Inl err, c') \<Longrightarrow> c' = c"
  by (auto simp: settle_send_def split: sum.splits)

lemma settle_send_success_cache:
  "settle_send e secretName c = (Inr v, c') \<Longrightarrow>
     c' = c(secretName \<mapsto> \<lparr>secret = v, timestamp = now_store e\<rparr>)"
  by (auto simp: settle_send_def split: sum.splits)

text \<open>
  C2 (cache freshness). After a fetch of a name has succeeded, the cache holds an entry for
  the name with the value returned; when the fetch went upstream, the entry's timestamp
  \<open>T\<close> is the time of that fetch (the reading of the clock when the value was stored).
  The next fetch of the name, with \<open>useCache = true\<close> at time \<open>T'\<close>, returns the identical
  value, leaves the state as it is and makes no upstream call when \<open>T' - T < CACHE_TTL\<close>,
  and calls upstream when \<open>T' - T \<ge> CACHE_TTL\<close>. \<open>CACHE_TTL\<close> is 300000 ms. The time
  \<open>T\<close> is the time of retrieval, as in the specification's \<open>fetchedAt\<close>: a fetch that was
  itself served from the cache leaves the timestamp of the entry as it was.
\<close>

theorem cache_freshness:
  assumes "getSecret e1 secretName useCache st0 = (Inr v, st1)"
  shows "\<exists>cached. secretCache st1 secretName = Some cached \<and> secret cached = v \<and>
           (sent st1 \<noteq> sent st0 \<longrightarrow> timestamp cached = now_store e1) \<and>
           (now_check e2 - timestamp cached < CACHE_TTL \<longrightarrow>
              getSecret e2 secretName True st1 = (Inr v, st1)) \<and>
           (now_check e2 - timestamp cached \<ge> CACHE_TTL \<longrightarrow>
              sent (snd (getSecret e2 secretName True st1)) = sent st1 @ [secretName])"
proof (cases "cached_value e1 secretName useCache (secretCache st0)")
  case (Some u)
  with assms have eq: "u = v" "st1 = st0"
    by (simp_all add: getSecret_def)
  from Some obtain cached where c: "secretCache st0 secretName = Some cached" "secret cached = u"
    by (auto simp: cached_value_def split: if_splits option.splits)
  show ?thesis
    using c eq
    by (auto simp: getSecret_def cached_value_def split: prod.splits)
next
  case None
  with assms obtain c' where
    s: "settle_send e1 secretName (secretCache st0) = (Inr v, c')"
    and st1: "st1 = \<lparr>secretCache = c', sent = sent st0 @ [secretName]\<rparr>"
    by (auto simp: getSecret_def split: prod.splits)
  have c': "c' = (secretCache st0)(secretName \<mapsto> \<lparr>secret = v, timestamp = now_store e1\<rparr>)"
    using s by (rule settle_send_success_cache)
  show ?thesis
    using c' st1
    by (auto simp: getSecret_def cached_value_def split: prod.splits)
qed

theorem cache_freshness_witness:
  "getSecret (demo_env 1000 1005) ''A'' True empty_state
     = (Inr (JObj []),
        \<lparr>secretCache = [''A'' \<mapsto> \<lparr>secret = JObj [], timestamp = 1005\<rparr>], sent = [''A'']\<rparr>) \<and>
   getSecret (demo_env 301004 301009) ''A'' True
       \<lparr>secretCache = [''A'' \<mapsto> \<lparr>secret = JObj [], timestamp = 1005\<rparr>], sent = [''A'']\<rparr>
     = (Inr (JObj []),
        \<lparr>secretCache = [''A'' \<mapsto> \<lparr>secret = JObj [], timestamp = 1005\<rparr>], sent = [''A'']\<rparr>) \<and>
   sent (snd (getSecret (demo_env 301005 301009) ''A'' True
       \<lparr>secretCache = [''A'' \<mapsto> \<lparr>secret = JObj [], timestamp = 1005\<rparr>], sent = [''A'']\<rparr>))
     = [''A'', ''A'']"
proof -
  let ?st1 = "\<lparr>secretCache = [''A'' \<mapsto> \<lparr>secret = JObj [], timestamp = 1005\<rparr>], sent = [''A'']\<rparr>"
  have h: "getSecret (demo_env 1000 1005) ''A'' True empty_state = (Inr (JObj []), ?st1)"
    by (simp add: getSecret_def settle_send_def cached_value_def decode_def truthy_string_def
          parse_or_raw_def demo_defs)
  from cache_freshness [OF h, of "demo_env 301004 301009"] obtain c1 where
    c1: "secretCache ?st1 ''A'' = Some c1"
    "now_check (demo_env 301004 301009) - timestamp c1 < CACHE_TTL \<longrightarrow>
       getSecret (demo_env 301004 301009) ''A'' True ?st1 = (Inr (JObj []), ?st1)"
    by blast
  from cache_freshness [OF h, of "demo_env 301005 301009"] obtain c2 where
    c2: "secretCache ?st1 ''A'' = Some c2"
    "now_check (demo_env 301005 301009) - timestamp c2 \<ge> CACHE_TTL \<longrightarrow>
       sent (snd (getSecret (demo_env 301005 301009) ''A'' True ?st1)) = sent ?st1 @ [''A'']"
    by blast
  from c1(1) have t1: "timestamp c1 = 1005" by auto
  from c2(1) have t2: "timestamp c2 = 1005" by auto
  from c1(2) t1 have fresh: "getSecret (demo_env 301004 301009) ''A'' True ?st1 = (Inr (JObj []), ?st1)"
    by (simp add: demo_env_def CACHE_TTL_def)
  from c2(2) t2 have stale:
    "sent (snd (getSecret (demo_env 301005 301009) ''A'' True ?st1)) = [''A'', ''A'']"
    by (simp add: demo_env_def CACHE_TTL_def)
  from h fresh stale show ?thesis by simp
qed

text \<open>
  C4 (no cache pollution on failure). Whatever the name, the flag and the state, when
  \<open>getSecret\<close> fails (the upstream call was rejected, or the response held no payload),
  the cache after the call is the cache before it: an entry the name had is untouched and
  no entry is created. The cache differs after the call only when upstream answered and
  the answer was decoded, and then the call returns the decoded value.
\<close>

theorem failed_fetch_keeps_cache:
  assumes "getSecret e secretName useCache st = (res, st')"
  shows "(\<forall>err. res = Inl err \<longrightarrow> secretCache st' = secretCache st) \<and>
         (secretCache st' \<noteq> secretCache st \<longrightarrow>
            (\<exists>r v. client_send e secretName = Inr r \<and> decode e r = Inr v \<and> res = Inr v))"
  using assms
  by (auto simp: getSecret_def settle_send_def split: option.splits sum.splits prod.splits)

theorem failed_fetch_keeps_cache_witness:
  "getSecret (demo_env 400000 400005) ''X'' True old_state
     = (Inl (new_Error (''Secret '' @ quoted ''X'' @ '' not found'')),
        old_state\<lparr>sent := [''X'']\<rparr>) \<and>
   secretCache (old_state\<lparr>sent := [''X'']\<rparr>) = secretCache old_state"
proof -
  have h: "getSecret (demo_env 400000 400005) ''X'' True old_state
     = (Inl (new_Error (''Secret '' @ quoted ''X'' @ '' not found'')),
        old_state\<lparr>sent := [''X'']\<rparr>)"
    by (simp add: getSecret_def settle_send_def cached_value_def rethrow_def CACHE_TTL_def
          demo_defs)
  from failed_fetch_keeps_cache [OF h] show ?thesis using h by simp
qed

text \<open>
  C7 (cache bypass). Whatever the name and the state, also when the cache holds a fresh
  entry for the name, \<open>getSecret\<close> with \<open>useCache = false\<close> calls upstream for the name;
  when it succeeds with a value, the cache after the call is the cache before it with the
  entry of the name overwritten by that value and the current time.
\<close>

theorem bypass_calls_upstream_and_refreshes:
  "sent (snd (getSecret e secretName False st)) = sent st @ [secretName] \<and>
   (fst (getSecret e secretName False st) = Inr v \<longrightarrow>
      secretCache (snd (getSecret e secretName False st))
        = (secretCache st)(secretName \<mapsto> \<lparr>secret = v, timestamp = now_store e\<rparr>))"
  by (auto simp: getSecret_def cached_value_def settle_send_def split: sum.splits prod.splits)

theorem bypass_calls_upstream_and_refreshes_witness:
  "cached_value (demo_env 2000 2005) ''A'' True (secretCache old_state) = Some (JStr ''old'') \<and>
   fst (getSecret (demo_env 2000 2005) ''A'' False old_state) = Inr (JObj []) \<and>
   sent (snd (getSecret (demo_env 2000 2005) ''A'' False old_state)) = [''A''] \<and>
   secretCache (snd (getSecret (demo_env 2000 2005) ''A'' False old_state)) ''A''
     = Some \<lparr>secret = JObj [], timestamp = 2005\<rparr>"
proof -
  have h: "fst (getSecret (demo_env 2000 2005) ''A'' False old_state) = Inr (JObj [])"
    by (simp add: getSecret_def settle_send_def cached_value_def decode_def truthy_string_def
          parse_or_raw_def demo_defs)
  have f: "cached_value (demo_env 2000 2005) ''A'' True (secretCache old_state) = Some (JStr ''old'')"
    by (simp add: cached_value_def CACHE_TTL_def demo_defs)
  from bypass_calls_upstream_and_refreshes [of "demo_env 2000 2005" "''A''" old_state "JObj []"] h
  have "sent (snd (getSecret (demo_env 2000 2005) ''A'' False old_state)) = sent old_state @ [''A'']"
    and "secretCache (snd (getSecret (demo_env 2000 2005) ''A'' False old_state))
           = (secretCache old_state)(''A'' \<mapsto> \<lparr>secret = JObj [], timestamp = now_store (demo_env 2000 2005)\<rparr>)"
    by simp_all
  then show ?thesis using h f by (simp add: demo_defs)
qed


text \<open>
  C6 (error taxonomy). When a fetch reaches upstream and the upstream call is rejected,
  \<open>getSecret\<close> fails: it raises the error built by the catch block, never a value. The
  message of that error tells the four kinds apart (not found, access denied, decryption
  failure, anything else, by the upstream identifiers \<open>ResourceNotFoundException\<close>,
  \<open>AccessDeniedException\<close>, \<open>DecryptionFailureException\<close> and any other name), and it
  contains the name of the secret.
\<close>

theorem upstream_errors_are_classified:
  assumes "cached_value e secretName useCache (secretCache st) = None"
      and "client_send e secretName = Inl error"
  shows "\<exists>err st'. getSecret e secretName useCache st = (Inl err, st') \<and>
           err = rethrow secretName error \<and>
           message_kind (err_message err) = upstream_kind (err_name error) \<and>
           (\<exists>before after. err_message err = before @ secretName @ after)"
proof -
  have g: "getSecret e secretName useCache st
             = (Inl (rethrow secretName error),
                \<lparr>secretCache = secretCache st, sent = sent st @ [secretName]\<rparr>)"
    using assms by (simp add: getSecret_def settle_send_def)
  have k: "message_kind (err_message (rethrow secretName error)) = upstream_kind (err_name error)"
    by (simp add: rethrow_def message_kind_def upstream_kind_def new_Error_def quoted_def)
  have "\<exists>after.
          err_message (rethrow secretName error)
            = (''Secret '' @ [CHR 0x27]) @ secretName @ after
        \<or> err_message (rethrow secretName error)
            = (''Access denied to secret '' @ [CHR 0x27]) @ secretName @ after
        \<or> err_message (rethrow secretName error)
            = (''Failed to decrypt secret '' @ [CHR 0x27]) @ secretName @ after
        \<or> err_message (rethrow secretName error)
            = (''Failed to retrieve secret '' @ [CHR 0x27]) @ secretName @ after"
    by (simp add: rethrow_def new_Error_def quoted_def)
  then have n: "\<exists>before after. err_message (rethrow secretName error) = before @ secretName @ after"
    by blast
  show ?thesis using g k n by simp
qed

theorem upstream_errors_are_classified_witness:
  "cached_value (demo_env 1000 1005) ''missing'' True (secretCache empty_state) = None \<and>
   client_send (demo_env 1000 1005) ''missing'' = Inl not_found \<and>
   fst (getSecret (demo_env 1000 1005) ''missing'' True empty_state)
     = Inl (new_Error (''Secret '' @ quoted ''missing'' @ '' not found'')) \<and>
   message_kind (''Secret '' @ quoted ''missing'' @ '' not found'') = NotFound"
proof -
  have h1: "cached_value (demo_env 1000 1005) ''missing'' True (secretCache empty_state) = None"
    by (simp add: cached_value_def demo_defs)
  have h2: "client_send (demo_env 1000 1005) ''missing'' = Inl not_found"
    by (simp add: demo_defs)
  from upstream_errors_are_classified [OF h1 h2] obtain err st' where
    g: "getSecret (demo_env 1000 1005) ''missing'' True empty_state = (Inl err, st')"
    and e: "err = rethrow ''missing'' not_found"
    and k: "message_kind (err_message err) = upstream_kind (err_name not_found)"
    by blast
  from e have m: "err = new_Error (''Secret '' @ quoted ''missing'' @ '' not found'')"
    by (simp add: rethrow_def not_found_def)
  from k m have "message_kind (''Secret '' @ quoted ''missing'' @ '' not found'') = NotFound"
    by (simp add: new_Error_def upstream_kind_def not_found_def)
  with h1 h2 g m show ?thesis by simp
qed

section \<open>Properties of the decoding\<close>

text \<open>
  C3, as stated, fails on a textual payload that is present and empty. The upstream
  response of \<open>blank\<close> carries the textual payload \<open>""\<close>, on which \<open>JSON.parse\<close> throws, so
  the claim makes the fetch return the raw text \<open>""\<close>. The test \<open>if (response.SecretString)\<close>
  is false for the empty string, there is no binary payload, and the fetch fails with
  \<open>Secret value is empty\<close>.
\<close>

theorem textual_blank_counterexample:
  "client_send (demo_env 0 5) ''blank'' = Inr \<lparr>SecretString = Some [], SecretBinary = None\<rparr> \<and>
   JSON_parse (demo_env 0 5) [] = None \<and>
   fst (getSecret (demo_env 0 5) ''blank'' True empty_state) \<noteq> Inr (JStr []) \<and>
   fst (getSecret (demo_env 0 5) ''blank'' True empty_state)
     = Inl (new_Error (''Failed to retrieve secret '' @ quoted ''blank''
                       @ '': Secret value is empty''))"
  by (simp add: getSecret_def settle_send_def cached_value_def decode_def truthy_string_def
        rethrow_def new_Error_def demo_defs)

text \<open>
  C3, amended. A textual payload counts when it is present and not empty. For every
  upstream response to a fetch that reaches upstream: with a non-empty textual payload the
  fetch returns what \<open>JSON.parse\<close> makes of it, or the text itself when \<open>JSON.parse\<close>
  throws; otherwise (the textual payload absent or empty), with a binary payload present,
  it returns the same of the text decoded from the binary payload; otherwise (no binary
  payload either) it fails, and the error is the generic failure for that secret with the
  message \<open>Secret value is empty\<close>.
\<close>

theorem decode_order:
  assumes "cached_value e secretName useCache (secretCache st) = None"
      and "client_send e secretName = Inr r"
  shows "(\<forall>s. SecretString r = Some s \<and> s \<noteq> [] \<longrightarrow>
            fst (getSecret e secretName useCache st)
              = Inr (case JSON_parse e s of Some j \<Rightarrow> j | None \<Rightarrow> JStr s)) \<and>
         (\<forall>b. (SecretString r = None \<or> SecretString r = Some []) \<and>
               SecretBinary r = Some b \<longrightarrow>
            fst (getSecret e secretName useCache st)
              = Inr (case JSON_parse e (Buffer_toString e b) of
                       Some j \<Rightarrow> j | None \<Rightarrow> JStr (Buffer_toString e b))) \<and>
         ((SecretString r = None \<or> SecretString r = Some []) \<and> SecretBinary r = None \<longrightarrow>
            fst (getSecret e secretName useCache st)
              = Inl (new_Error (''Failed to retrieve secret '' @ quoted secretName
                                @ '': Secret value is empty'')))"
  using assms
  by (auto simp: getSecret_def settle_send_def decode_def truthy_string_def parse_or_raw_def
        rethrow_def new_Error_def split: option.splits)

theorem decode_order_witness:
  "fst (getSecret (demo_env 0 5) ''A'' True empty_state) = Inr (JObj []) \<and>
   fst (getSecret (demo_env 0 5) ''text'' True empty_state) = Inr (JStr ''hello'') \<and>
   fst (getSecret (demo_env 0 5) ''bin'' True empty_state) = Inr (JStr ''hi'') \<and>
   fst (getSecret (demo_env 0 5) ''hollow'' True empty_state) = Inr (JStr []) \<and>
   fst (getSecret (demo_env 0 5) ''nothing'' True empty_state)
     = Inl (new_Error (''Failed to retrieve secret '' @ quoted ''nothing''
                       @ '': Secret value is empty''))"
proof -
  have miss: "\<And>n. cached_value (demo_env 0 5) n True (secretCache empty_state) = None"
    by (simp add: cached_value_def demo_defs)
  have a: "client_send (demo_env 0 5) ''A'' = Inr \<lparr>SecretString = Some ''{}'', SecretBinary = None\<rparr>"
    and t: "client_send (demo_env 0 5) ''text''
              = Inr \<lparr>SecretString = Some ''hello'', SecretBinary = None\<rparr>"
    and b: "client_send (demo_env 0 5) ''bin''
              = Inr \<lparr>SecretString = None, SecretBinary = Some [104, 105]\<rparr>"
    and h: "client_send (demo_env 0 5) ''hollow''
              = Inr \<lparr>SecretString = None, SecretBinary = Some []\<rparr>"
    and n: "client_send (demo_env 0 5) ''nothing'' = Inr \<lparr>SecretString = None, SecretBinary = None\<rparr>"
    by (simp_all add: demo_defs)
  from decode_order [OF miss a]
  have 1: "fst (getSecret (demo_env 0 5) ''A'' True empty_state) = Inr (JObj [])"
    by (simp add: demo_defs)
  from decode_order [OF miss t]
  have 2: "fst (getSecret (demo_env 0 5) ''text'' True empty_state) = Inr (JStr ''hello'')"
    by (simp add: demo_defs)
  from decode_order [OF miss b]
  have 3: "fst (getSecret (demo_env 0 5) ''bin'' True empty_state) = Inr (JStr ''hi'')"
    by (simp add: demo_defs)
  from decode_order [OF miss h]
  have 4: "fst (getSecret (demo_env 0 5) ''hollow'' True empty_state) = Inr (JStr [])"
    by (simp add: demo_defs)
  from decode_order [OF miss n]
  have 5: "fst (getSecret (demo_env 0 5) ''nothing'' True empty_state)
     = Inl (new_Error (''Failed to retrieve secret '' @ quoted ''nothing''
                       @ '': Secret value is empty''))"
    by simp
  from 1 2 3 4 5 show ?thesis by simp
qed

section \<open>Properties of clearCache and clearSecretCache\<close>

text \<open>
  C9 (invalidation is idempotent). \<open>clearSecretCache\<close> and \<open>clearCache\<close> are total: they
  return a state for every state and have no failing path. Clearing a name that has no
  entry leaves the state unchanged, clearing a name twice equals clearing it once, and
  clearing the whole cache twice equals clearing it once.
\<close>

theorem invalidate_idempotent:
  "(secretCache st secretName = None \<longrightarrow> clearSecretCache secretName st = st) \<and>
   clearSecretCache secretName (clearSecretCache secretName st) = clearSecretCache secretName st \<and>
   clearCache (clearCache st) = clearCache st"
  by (simp add: clearSecretCache_def clearCache_def fun_upd_idem)

theorem invalidate_idempotent_witness:
  "secretCache old_state ''never-cached'' = None \<and>
   clearSecretCache ''never-cached'' old_state = old_state \<and>
   clearSecretCache ''X'' (clearSecretCache ''X'' old_state) = clearSecretCache ''X'' old_state"
proof -
  have h: "secretCache old_state ''never-cached'' = None"
    by (simp add: old_state_def)
  from invalidate_idempotent [of old_state "''never-cached''"] h
  have 1: "clearSecretCache ''never-cached'' old_state = old_state"
    by simp
  from invalidate_idempotent [of old_state "''X''"]
  have 2: "clearSecretCache ''X'' (clearSecretCache ''X'' old_state) = clearSecretCache ''X'' old_state"
    by simp
  from h 1 2 show ?thesis by simp
qed


section \<open>Properties of the HTTP boundary\<close>

text \<open>
  C1 (not found is answered with 404) does not hold of the code. The catch block of
  \<open>getSecret\<close> raises a plain \<open>Error\<close> for \<open>ResourceNotFoundException\<close>, with a message
  and no \<open>statusCode\<close> or \<open>status\<close>, the route passes it to \<open>next\<close>, and \<open>errorHandler\<close>
  falls back to 500. Evaluated for \<open>GET /secrets/missing\<close> on an empty cache, where
  upstream reports that the secret does not exist: the response has status 500.
\<close>

theorem not_found_answers_500:
  "client_send (demo_env 1000 1005) ''missing'' = Inl not_found \<and>
   err_name not_found = ''ResourceNotFoundException'' \<and>
   GET_secrets_name None Some (demo_env 1000 1005) ''missing'' None empty_state
     = Some \<lparr>status = 500,
          body = JObj [(''error'',
                   JObj [(''message'', JStr (''Secret '' @ quoted ''missing'' @ '' not found'')),
                         (''statusCode'', JNum 500)])]\<rparr>"
  by (simp add: GET_secrets_name_def get_secret_route_def answer_def errorHandler_def
        truthy_number_def getSecret_def settle_send_def cached_value_def rethrow_def
        new_Error_def quoted_def demo_defs)

text \<open>The same for every secret name and every upstream error: the status is 500.\<close>

lemma rethrown_error_status:
  "map_option status (errorHandler NODE_ENV (rethrow secretName error)) = Some 500"
  by (simp add: errorHandler_def rethrow_def new_Error_def truthy_number_def)

text \<open>
  C10 (the \<open>useCache\<close> query parameter). For a name that decodes, the route
  \<open>GET /secrets/:name\<close> makes exactly one adapter call, \<open>getSecret\<close> of the decoded name,
  and the flag of that call is \<open>false\<close> if and only if \<open>req.query.useCache\<close> is the string
  \<open>false\<close>; with any other value, or without the parameter, the flag is \<open>true\<close>.
\<close>

theorem useCache_false_only_for_literal_false:
  assumes "decodeURIComponent params_name = Some secretName"
  shows "\<exists>useCache.
           fst (snd (get_secret_route decodeURIComponent e params_name query_useCache st))
             = [Call_getSecret secretName useCache] \<and>
           snd (snd (get_secret_route decodeURIComponent e params_name query_useCache st))
             = snd (getSecret e secretName useCache st) \<and>
           (useCache = False \<longleftrightarrow> query_useCache = Some (QString ''false''))"
  using assms
  by (auto simp: get_secret_route_def Let_def split: prod.splits sum.splits)

theorem useCache_false_only_for_literal_false_witness:
  "fst (snd (get_secret_route Some (demo_env 0 5) ''A'' (Some (QString ''false'')) empty_state))
     = [Call_getSecret ''A'' False] \<and>
   fst (snd (get_secret_route Some (demo_env 0 5) ''A'' (Some (QString ''FALSE'')) empty_state))
     = [Call_getSecret ''A'' True] \<and>
   fst (snd (get_secret_route Some (demo_env 0 5) ''A'' (Some (QString ''0'')) empty_state))
     = [Call_getSecret ''A'' True] \<and>
   fst (snd (get_secret_route Some (demo_env 0 5) ''A'' (Some (QString ''no'')) empty_state))
     = [Call_getSecret ''A'' True] \<and>
   fst (snd (get_secret_route Some (demo_env 0 5) ''A'' (Some (QString [])) empty_state))
     = [Call_getSecret ''A'' True] \<and>
   fst (snd (get_secret_route Some (demo_env 0 5) ''A'' None empty_state))
     = [Call_getSecret ''A'' True]"
proof -
  have d: "Some ''A'' = Some ''A''" by simp
  have r: "\<And>q. fst (snd (get_secret_route Some (demo_env 0 5) ''A'' q empty_state))
             = [Call_getSecret ''A'' (q \<noteq> Some (QString ''false''))]"
  proof -
    fix q
    from useCache_false_only_for_literal_false
           [where decodeURIComponent = Some and params_name = "''A''" and secretName = "''A''"
              and e = "demo_env 0 5" and query_useCache = q and st = empty_state, OF d]
    obtain u where
      "fst (snd (get_secret_route Some (demo_env 0 5) ''A'' q empty_state)) = [Call_getSecret ''A'' u]"
      and "u = False \<longleftrightarrow> q = Some (QString ''false'')"
      by blast
    then show "fst (snd (get_secret_route Some (demo_env 0 5) ''A'' q empty_state))
             = [Call_getSecret ''A'' (q \<noteq> Some (QString ''false''))]"
      by auto
  qed
  show ?thesis by (simp add: r)
qed




text \<open>With a non-empty array the route does call the adapter, once, with the array.\<close>

lemma batch_accepts_names:
  assumes "req_body = Some props" and "props ''names'' = Some (JArr (n # ns))"
  shows "\<exists>useCache. post_batch_route adapter req_body st
           = (Sent \<lparr>status = 200, body = fst (adapter (n # ns) useCache st)\<rparr>,
              [Call_getMultipleSecrets (n # ns) useCache],
              snd (adapter (n # ns) useCache st))"
  using assms
  by (auto simp: post_batch_route_def Let_def split: option.splits prod.splits)

section \<open>Properties of getMultipleSecrets\<close>

text \<open>A batch of one name is one call of \<open>getSecret\<close>.\<close>

lemma batch_of_one:
  "snd (getMultipleSecrets w [0] [secretName] useCache st)
     = snd (getSecret (w 0) secretName useCache st)"
  "secretName \<noteq> ''__proto__'' \<Longrightarrow>
     fst (getMultipleSecrets w [0] [secretName] useCache st) =
       (case fst (getSecret (w 0) secretName useCache st) of
          Inr v \<Rightarrow> \<lparr>secrets = [(secretName, v)], errors = None\<rparr>
        | Inl err \<Rightarrow> \<lparr>secrets = [], errors = Some [(secretName, err_message err)]\<rparr>)"
  by (auto simp: getMultipleSecrets_def getSecret_def resume_def started_def Let_def js_set_def
        Object_keys_def split: option.splits prod.splits sum.splits)

lemma settle_send_fst: "fst (settle_send e n c) = fst (settle_send e n c')"
  by (simp add: settle_send_def split: sum.splits)

lemma keys_assign: "fst ` set (assign k v al) = insert k (fst ` set al)"
  by (induction al) auto

lemma map_of_assign: "map_of (assign k v al) = (map_of al)(k \<mapsto> v)"
  by (induction al) auto

lemma keys_js_set:
  "set (Object_keys (js_set obj k v)) =
     (if k = ''__proto__'' then set (Object_keys obj) else insert k (set (Object_keys obj)))"
  by (simp add: js_set_def Object_keys_def keys_assign)

lemma resume_results:
  "set (Object_keys (results (resume w ns u c0 i b))) =
     set (Object_keys (results b)) \<union>
       {k. k = ns ! i \<and> k \<noteq> ''__proto__'' \<and> (\<exists>v. outcome w ns u c0 i = Inr v)}"
proof (cases "cached_value (w i) (ns ! i) u c0")
  case (Some v)
  then show ?thesis
    by (auto simp: resume_def outcome_def Let_def keys_js_set)
next
  case None
  have eq: "fst (settle_send (w i) (ns ! i) (b_cache b)) = fst (settle_send (w i) (ns ! i) c0)"
    by (rule settle_send_fst)
  show ?thesis
    using None eq
    by (cases "settle_send (w i) (ns ! i) (b_cache b)")
       (auto simp: resume_def outcome_def Let_def keys_js_set split: sum.splits)
qed

lemma resume_errs:
  "set (Object_keys (errs (resume w ns u c0 i b))) =
     set (Object_keys (errs b)) \<union>
       {k. k = ns ! i \<and> k \<noteq> ''__proto__'' \<and> (\<exists>err. outcome w ns u c0 i = Inl err)}"
proof (cases "cached_value (w i) (ns ! i) u c0")
  case (Some v)
  then show ?thesis
    by (auto simp: resume_def outcome_def Let_def keys_js_set)
next
  case None
  have eq: "fst (settle_send (w i) (ns ! i) (b_cache b)) = fst (settle_send (w i) (ns ! i) c0)"
    by (rule settle_send_fst)
  show ?thesis
    using None eq
    by (cases "settle_send (w i) (ns ! i) (b_cache b)")
       (auto simp: resume_def outcome_def Let_def keys_js_set split: sum.splits)
qed

lemma fold_resume_results:
  "set (Object_keys (results (fold (resume w ns u c0) order b))) =
     set (Object_keys (results b)) \<union>
       {k. \<exists>i \<in> set order. k = ns ! i \<and> k \<noteq> ''__proto__'' \<and> (\<exists>v. outcome w ns u c0 i = Inr v)}"
proof (induction order arbitrary: b)
  case Nil
  then show ?case by simp
next
  case (Cons i order)
  show ?case
    by (simp add: Cons.IH resume_results) blast
qed

lemma fold_resume_errs:
  "set (Object_keys (errs (fold (resume w ns u c0) order b))) =
     set (Object_keys (errs b)) \<union>
       {k. \<exists>i \<in> set order. k = ns ! i \<and> k \<noteq> ''__proto__'' \<and> (\<exists>err. outcome w ns u c0 i = Inl err)}"
proof (induction order arbitrary: b)
  case Nil
  then show ?case by simp
next
  case (Cons i order)
  show ?case
    by (simp add: Cons.IH resume_errs) blast
qed


lemma map_of_js_set:
  "map_of (js_set obj k v) = (if k = ''__proto__'' then map_of obj else (map_of obj)(k \<mapsto> v))"
  by (simp add: js_set_def map_of_assign)

lemma resume_results_value:
  assumes "map_of (results (resume w ns u c0 i b)) k = Some v"
  shows "map_of (results b) k = Some v \<or> (ns ! i = k \<and> outcome w ns u c0 i = Inr v)"
proof (cases "cached_value (w i) (ns ! i) u c0")
  case (Some x)
  with assms show ?thesis
    by (auto simp: resume_def outcome_def Let_def map_of_js_set split: if_splits)
next
  case None
  have eq: "fst (settle_send (w i) (ns ! i) (b_cache b)) = fst (settle_send (w i) (ns ! i) c0)"
    by (rule settle_send_fst)
  show ?thesis
    using None eq assms
    by (cases "settle_send (w i) (ns ! i) (b_cache b)")
       (auto simp: resume_def outcome_def Let_def map_of_js_set split: sum.splits if_splits)
qed

lemma resume_errs_value:
  assumes "map_of (errs (resume w ns u c0 i b)) k = Some m"
  shows "map_of (errs b) k = Some m \<or>
         (ns ! i = k \<and> (\<exists>err. outcome w ns u c0 i = Inl err \<and> m = err_message err))"
proof (cases "cached_value (w i) (ns ! i) u c0")
  case (Some x)
  with assms show ?thesis
    by (auto simp: resume_def outcome_def Let_def map_of_js_set split: if_splits)
next
  case None
  have eq: "fst (settle_send (w i) (ns ! i) (b_cache b)) = fst (settle_send (w i) (ns ! i) c0)"
    by (rule settle_send_fst)
  show ?thesis
    using None eq assms
    by (cases "settle_send (w i) (ns ! i) (b_cache b)")
       (auto simp: resume_def outcome_def Let_def map_of_js_set split: sum.splits if_splits)
qed

lemma fold_resume_results_value:
  "map_of (results (fold (resume w ns u c0) order b)) k = Some v \<Longrightarrow>
     map_of (results b) k = Some v \<or>
     (\<exists>i \<in> set order. ns ! i = k \<and> outcome w ns u c0 i = Inr v)"
proof (induction order arbitrary: b)
  case Nil
  then show ?case by simp
next
  case (Cons i order)
  from Cons.prems have
    "map_of (results (fold (resume w ns u c0) order (resume w ns u c0 i b))) k = Some v"
    by simp
  from Cons.IH [OF this] show ?case
    using resume_results_value [of w ns u c0 i b k v] by auto
qed

lemma fold_resume_errs_value:
  "map_of (errs (fold (resume w ns u c0) order b)) k = Some m \<Longrightarrow>
     map_of (errs b) k = Some m \<or>
     (\<exists>i \<in> set order. ns ! i = k \<and> (\<exists>err. outcome w ns u c0 i = Inl err \<and> m = err_message err))"
proof (induction order arbitrary: b)
  case Nil
  then show ?case by simp
next
  case (Cons i order)
  from Cons.prems have
    "map_of (errs (fold (resume w ns u c0) order (resume w ns u c0 i b))) k = Some m"
    by simp
  from Cons.IH [OF this] show ?case
    using resume_errs_value [of w ns u c0 i b k m] by auto
qed

text \<open>
  Failure isolation, for every name other than \<open>__proto__\<close>. Whatever the order in which
  the calls settle, once all have settled the keys of \<open>secrets\<close> are the names of the calls
  that succeeded, the keys of \<open>errors\<close> are the names of the calls that failed, each with
  a value or message of such a call, and \<open>errors\<close> is omitted exactly when it has no key.
\<close>

lemma batch_isolation:
  assumes perm: "set order = {0..<length secretNames}"
      and run: "getMultipleSecrets w order secretNames useCache st = (res, st')"
  shows "set (Object_keys (secrets res)) =
           {k. k \<noteq> ''__proto__'' \<and> (\<exists>i < length secretNames. secretNames ! i = k \<and>
                 (\<exists>v. outcome w secretNames useCache (secretCache st) i = Inr v))}"
    and "map_of (secrets res) k = Some v \<Longrightarrow>
           \<exists>i < length secretNames. secretNames ! i = k \<and>
              outcome w secretNames useCache (secretCache st) i = Inr v"
    and "\<exists>es. errors res = (if es = [] then None else Some es) \<and>
           set (Object_keys es) =
             {k. k \<noteq> ''__proto__'' \<and> (\<exists>i < length secretNames. secretNames ! i = k \<and>
                 (\<exists>err. outcome w secretNames useCache (secretCache st) i = Inl err))} \<and>
           (\<forall>k m. map_of es k = Some m \<longrightarrow>
              (\<exists>i < length secretNames. secretNames ! i = k \<and>
                 (\<exists>err. outcome w secretNames useCache (secretCache st) i = Inl err \<and>
                        m = err_message err)))"
proof -
  let ?b0 = "\<lparr>b_cache = secretCache st, results = [], errs = []\<rparr>"
  let ?b = "fold (resume w secretNames useCache (secretCache st)) order ?b0"
  from run have res: "secrets res = results ?b"
    "errors res = (if errs ?b = [] then None else Some (errs ?b))"
    by (auto simp: getMultipleSecrets_def Let_def Object_keys_def)
  show "set (Object_keys (secrets res)) =
           {k. k \<noteq> ''__proto__'' \<and> (\<exists>i < length secretNames. secretNames ! i = k \<and>
                 (\<exists>v. outcome w secretNames useCache (secretCache st) i = Inr v))}"
    unfolding res fold_resume_results perm by (auto simp: Object_keys_def)
  show "\<exists>i < length secretNames. secretNames ! i = k \<and>
              outcome w secretNames useCache (secretCache st) i = Inr v"
    if "map_of (secrets res) k = Some v"
  proof -
    from that have "map_of (results ?b) k = Some v"
      by (simp add: res)
    from fold_resume_results_value [OF this] perm show ?thesis
      by auto
  qed
  have "set (Object_keys (errs ?b)) =
             {k. k \<noteq> ''__proto__'' \<and> (\<exists>i < length secretNames. secretNames ! i = k \<and>
                 (\<exists>err. outcome w secretNames useCache (secretCache st) i = Inl err))}"
    unfolding fold_resume_errs perm by (auto simp: Object_keys_def)
  moreover have "\<forall>k m. map_of (errs ?b) k = Some m \<longrightarrow>
              (\<exists>i < length secretNames. secretNames ! i = k \<and>
                 (\<exists>err. outcome w secretNames useCache (secretCache st) i = Inl err \<and>
                        m = err_message err))"
  proof (intro allI impI)
    fix k m assume "map_of (errs ?b) k = Some m"
    from fold_resume_errs_value [OF this] perm
    show "\<exists>i < length secretNames. secretNames ! i = k \<and>
                 (\<exists>err. outcome w secretNames useCache (secretCache st) i = Inl err \<and>
                        m = err_message err)"
      by auto
  qed
  ultimately show "\<exists>es. errors res = (if es = [] then None else Some es) \<and>
           set (Object_keys es) =
             {k. k \<noteq> ''__proto__'' \<and> (\<exists>i < length secretNames. secretNames ! i = k \<and>
                 (\<exists>err. outcome w secretNames useCache (secretCache st) i = Inl err))} \<and>
           (\<forall>k m. map_of es k = Some m \<longrightarrow>
              (\<exists>i < length secretNames. secretNames ! i = k \<and>
                 (\<exists>err. outcome w secretNames useCache (secretCache st) i = Inl err \<and>
                        m = err_message err)))"
    using res(2) by blast
qed

text \<open>
  C5 (failure isolation in a batch) does not hold for the name \<open>__proto__\<close>. Evaluated
  for the names \<open>A\<close>, which exists, and \<open>__proto__\<close>, which upstream reports as not
  existing: the call for \<open>__proto__\<close> fails with its not-found message, but the assignment
  \<open>errors[secretName] = error.message\<close> creates no property for that key, so \<open>errors\<close> has
  no keys and is omitted from the result, in either order of settling. The failure of the
  name is recorded nowhere.
\<close>

theorem batch_drops_proto_failure:
  "fst (getSecret (demo_world 1) ''__proto__'' True empty_state)
     = Inl (new_Error (''Secret '' @ quoted ''__proto__'' @ '' not found'')) \<and>
   fst (getMultipleSecrets demo_world [0, 1] [''A'', ''__proto__''] True empty_state)
     = \<lparr>secrets = [(''A'', JObj [])], errors = None\<rparr> \<and>
   fst (getMultipleSecrets demo_world [1, 0] [''A'', ''__proto__''] True empty_state)
     = \<lparr>secrets = [(''A'', JObj [])], errors = None\<rparr>"
  by (simp add: getMultipleSecrets_def Let_def resume_def js_set_def Object_keys_def getSecret_def
        settle_send_def cached_value_def decode_def truthy_string_def parse_or_raw_def
        rethrow_def new_Error_def quoted_def demo_defs)


end
